theory Spec2Isabelle
  imports Main "HOL-Library.Word" "HOL-Library.Sublist"
begin

section \<open>Values, errors and the observable state\<close>

text \<open>
  The module \<^verbatim>\<open>mod.ts\<close> bootstraps a WebSocket client connection on Deno: it parses a
  URL, dials a plain or a TLS socket, copies the caller's headers into a \<^verbatim>\<open>Headers\<close>
  object, wraps the socket into a \<^verbatim>\<open>WritableStream\<close> and a \<^verbatim>\<open>ReadableStream\<close>, runs
  the handshake collaborator and returns an object literal with the socket, the two
  streams and a masking key.

  Everything the module calls but does not define (the URL parser, the network, the
  \<^verbatim>\<open>Headers\<close> class, the handshake, the behaviour of \<^verbatim>\<open>conn.close()\<close> on a closed
  resource, the random source) is a field of the record \<open>runtime\<close>: the theorems hold for
  every runtime, and the closed examples pick one.
\<close>

type_synonym byte = "8 word"
type_synonym bytes = "byte list"

text \<open>A JavaScript number as far as \<^verbatim>\<open>parseInt\<close> produces one: an integer or \<^verbatim>\<open>NaN\<close>.\<close>

datatype number = NaN | Number int

datatype error =
    Error string
  | TypeError string
  | BadResource
  | Thrown string

text \<open>The three fields of the parsed URL that line 30 destructures.\<close>

record url =
  protocol :: string
  hostname :: string
  port :: string

text \<open>\<^verbatim>\<open>Deno.connect\<close> opens a plain TCP connection, \<^verbatim>\<open>Deno.connectTls\<close> a TLS one.\<close>

datatype transport = Tcp | Tls

text \<open>
  An object with string-valued properties (the caller's \<^verbatim>\<open>Record<string, string>\<close>, and the
  content of a \<^verbatim>\<open>Headers\<close> object), in enumeration order; objects live in a heap and are
  passed by reference.
\<close>

type_synonym object = "(string \<times> string) list"
type_synonym ref = nat

datatype event =
    Dial transport string number
  | StartReadLoop
  | Handshake url object
  | Close
  | Write bytes
  | Enqueue bytes
  | ControllerClose
  | ConsoleError string error
  | GetRandomValues nat

text \<open>
  The state a \<^verbatim>\<open>WritableStream\<close> keeps of itself: it is writable; it is closed (a close was
  requested); or it is errored, by an abort or by a method of its sink that threw, and
  stores the reason.
\<close>

datatype sink_state = SinkWritable | SinkClosed | SinkErrored error

text \<open>
  \<open>conn_open\<close>: the socket's resource is open. \<open>stream_open\<close>: the readable stream's
  controller accepts \<^verbatim>\<open>enqueue\<close> and \<^verbatim>\<open>close\<close> (the stream is readable and no close was
  requested). \<open>sink\<close>: the state of the writable stream.
  \<open>heap\<close> and \<open>heap_top\<close>: the objects, and the first reference not yet
  allocated. \<open>rng_pos\<close>: how many bytes of the random source have been used.
  \<open>events\<close>: the calls made by the one task that is followed (the task of
  \<^verbatim>\<open>createConnection\<close>, or the task of the read loop), in order.
\<close>

record state =
  conn_open :: bool
  stream_open :: bool
  sink :: sink_state
  heap :: "ref \<Rightarrow> object"
  heap_top :: ref
  rng_pos :: nat
  events :: "event list"

text \<open>
  The collaborators. \<open>others_while_dialing\<close> and \<open>handshake\<close> are state transformers:
  both calls are awaited, and while the caller of \<^verbatim>\<open>createConnection\<close> is suspended every
  other task runs (the code that called \<^verbatim>\<open>createConnection\<close> and holds the header object,
  the read loop, the consumer of the streams). \<open>close_closed\<close> is what \<^verbatim>\<open>conn.close()\<close>
  does when the resource is already closed: \<open>None\<close> for nothing, \<open>Some e\<close> for throwing
  \<open>e\<close> (Deno's resource table throws \<^verbatim>\<open>BadResource\<close>). \<open>net_write\<close> is the outcome of a
  write on the open socket: an error, or the number of bytes the transport took.
\<close>

record runtime =
  new_URL :: "string \<Rightarrow> error + url"
  net_connect :: "transport \<Rightarrow> string \<Rightarrow> number \<Rightarrow> error option"
  others_while_dialing :: "state \<Rightarrow> state"
  headers_set :: "string \<Rightarrow> string \<Rightarrow> object \<Rightarrow> error + object"
  handshake :: "url \<Rightarrow> ref \<Rightarrow> state \<Rightarrow> (error + unit) \<times> state"
  close_closed :: "error option"
  net_write :: "bytes \<Rightarrow> error + nat"
  entropy :: "nat \<Rightarrow> byte"

definition log_event :: "event \<Rightarrow> state \<Rightarrow> state" where
  "log_event e s = s\<lparr>events := events s @ [e]\<rparr>"

text \<open>
  What runs while the task that is followed is suspended at an \<^verbatim>\<open>await\<close> changes the state,
  but adds nothing to the record of that task's calls and takes nothing from it.
\<close>

definition await_others :: "(state \<Rightarrow> 'a \<times> state) \<Rightarrow> state \<Rightarrow> 'a \<times> state" where
  "await_others f s = (case f s of (r, s') \<Rightarrow> (r, s'\<lparr>events := events s\<rparr>))"

section \<open>parseInt and the port\<close>

text \<open>
  \<^verbatim>\<open>parseInt(string)\<close> with no radix: leading white space is skipped, a sign is read, a
  prefix \<^verbatim>\<open>0x\<close> or \<^verbatim>\<open>0X\<close> selects radix 16, and the longest run of digits of the radix
  is the value; no digit gives \<^verbatim>\<open>NaN\<close>. Characters are bytes here, so the white space is
  the ASCII part of JavaScript's; the value is exact (a double is, below \<open>2 ^ 53\<close>).
\<close>

definition is_space :: "char \<Rightarrow> bool" where
  "is_space c = (c \<in> set [CHR 0x09, CHR 0x0A, CHR 0x0B, CHR 0x0C, CHR 0x0D, CHR 0x20])"

definition digit_val :: "char \<Rightarrow> nat option" where
  "digit_val c =
     (let k = (of_char c :: nat) in
      if 48 \<le> k \<and> k \<le> 57 then Some (k - 48)
      else if 97 \<le> k \<and> k \<le> 122 then Some (k - 87)
      else if 65 \<le> k \<and> k \<le> 90 then Some (k - 55)
      else None)"

definition is_digit :: "nat \<Rightarrow> char \<Rightarrow> bool" where
  "is_digit radix c = (case digit_val c of None \<Rightarrow> False | Some v \<Rightarrow> v < radix)"

definition digits_value :: "nat \<Rightarrow> string \<Rightarrow> nat" where
  "digits_value radix ds =
     foldl (\<lambda>a c. a * radix + (case digit_val c of None \<Rightarrow> 0 | Some v \<Rightarrow> v)) 0 ds"

definition parseInt :: "string \<Rightarrow> number" where
  "parseInt str =
     (let s1 = dropWhile is_space str;
          neg = (take 1 s1 = ''-'');
          s2 = (if take 1 s1 = ''-'' \<or> take 1 s1 = ''+'' then drop 1 s1 else s1);
          hex = (take 2 s2 = ''0x'' \<or> take 2 s2 = ''0X'');
          radix = (if hex then 16 else 10);
          s3 = (if hex then drop 2 s2 else s2);
          ds = takeWhile (is_digit radix) s3
      in if ds = [] then NaN
         else if neg then Number (- int (digits_value radix ds))
         else Number (int (digits_value radix ds)))"

text \<open>\<^verbatim>\<open>a || b\<close> on strings: the empty string is the only falsy one.\<close>

definition or_else :: "string \<Rightarrow> string \<Rightarrow> string" where
  "or_else a b = (if a = [] then b else a)"

text \<open>
  How the URL parser writes a port it keeps: the shortest decimal numeral. (It reports
  the empty string when the URL has no port.)
\<close>

fun decimal :: "nat \<Rightarrow> string" where
  "decimal n =
     (if n < 10 then [char_of (48 + n)]
      else decimal (n div 10) @ [char_of (48 + n mod 10)])"

declare decimal.simps [simp del]

section \<open>The socket\<close>

text \<open>
  \<^verbatim>\<open>await Deno.connect({ hostname, port })\<close> and \<^verbatim>\<open>await Deno.connectTls(...)\<close>: the request
  is made, the other tasks run while it is pending, and the network's answer decides.
\<close>

definition Deno_connect ::
    "runtime \<Rightarrow> transport \<Rightarrow> string \<Rightarrow> number \<Rightarrow> state \<Rightarrow> (error + unit) \<times> state" where
  "Deno_connect rt tr h p s =
     (case await_others (\<lambda>s. ((), others_while_dialing rt s)) (log_event (Dial tr h p) s) of
        (_, s1) \<Rightarrow>
          (case net_connect rt tr h p of
             Some e \<Rightarrow> (Inl e, s1)
           | None \<Rightarrow> (Inr (), s1\<lparr>conn_open := True\<rparr>)))"

text \<open>\<^verbatim>\<open>conn.close()\<close>. The module calls it with no check of the socket's state.\<close>

definition conn_close :: "runtime \<Rightarrow> state \<Rightarrow> (error + unit) \<times> state" where
  "conn_close rt s =
     (if conn_open s then (Inr (), log_event Close (s\<lparr>conn_open := False\<rparr>))
      else (case close_closed rt of None \<Rightarrow> (Inr (), s) | Some e \<Rightarrow> (Inl e, s)))"

text \<open>\<^verbatim>\<open>conn.write(chunk)\<close>: one write; the transport may take fewer bytes than offered.\<close>

definition conn_write :: "runtime \<Rightarrow> bytes \<Rightarrow> state \<Rightarrow> (error + nat) \<times> state" where
  "conn_write rt chunk s =
     (if conn_open s then
        (case net_write rt chunk of
           Inl e \<Rightarrow> (Inl e, s)
         | Inr n \<Rightarrow> (Inr (min n (length chunk)), log_event (Write (take n chunk)) s))
      else (Inl BadResource, s))"

definition console_error :: "string \<Rightarrow> error \<Rightarrow> state \<Rightarrow> state" where
  "console_error msg err s = log_event (ConsoleError msg err) s"

section \<open>The outbound sink (lines 46 to 57)\<close>

text \<open>
  The three methods of the object literal are called by the \<^verbatim>\<open>WritableStream\<close> that holds
  it, never directly: what a holder of \<^verbatim>\<open>writableStream\<close> can do is write to, close and abort
  the stream, and the stream calls a method only while it is writable.

  Writing: \<^verbatim>\<open>write(chunk)\<close> is \<^verbatim>\<open>return conn.write(chunk)\<close>; the stream waits for it, drops
  the number it returns, and becomes errored when it throws. A closed stream refuses the
  write, an errored one rejects it with the stored reason.
\<close>

definition sink_write :: "runtime \<Rightarrow> bytes \<Rightarrow> state \<Rightarrow> (error + unit) \<times> state" where
  "sink_write rt chunk s =
     (case sink s of
        SinkWritable \<Rightarrow>
          (case conn_write rt chunk s of
             (Inl e, s') \<Rightarrow> (Inl e, s'\<lparr>sink := SinkErrored e\<rparr>)
           | (Inr n, s') \<Rightarrow> (Inr (), s'))
      | SinkClosed \<Rightarrow> (Inl (TypeError ''The stream is closed.''), s)
      | SinkErrored stored \<Rightarrow> (Inl stored, s))"

text \<open>
  Closing: \<^verbatim>\<open>close()\<close> is \<^verbatim>\<open>conn.close()\<close>, with no look at the socket. The stream is closed
  when the method returns and errored when it throws, and the close then fails with what
  was thrown. A stream that is closed or errored refuses to be closed, and calls nothing.
\<close>

definition sink_close :: "runtime \<Rightarrow> state \<Rightarrow> (error + unit) \<times> state" where
  "sink_close rt s =
     (case sink s of
        SinkWritable \<Rightarrow>
          (case conn_close rt s of
             (Inl e, s') \<Rightarrow> (Inl e, s'\<lparr>sink := SinkErrored e\<rparr>)
           | (Inr _, s') \<Rightarrow> (Inr (), s'\<lparr>sink := SinkClosed\<rparr>))
      | _ \<Rightarrow> (Inl (TypeError ''The stream is closed.''), s))"


section \<open>The inbound source (lines 59 to 79)\<close>

text \<open>
  The controller of the readable stream: \<^verbatim>\<open>enqueue\<close> and \<^verbatim>\<open>close\<close> throw a
  \<^verbatim>\<open>TypeError\<close> once the stream no longer accepts them (it was closed, or its consumer
  cancelled it).
\<close>

definition controller_enqueue :: "bytes \<Rightarrow> state \<Rightarrow> error + state" where
  "controller_enqueue chunk s =
     (if stream_open s then Inr (log_event (Enqueue chunk) s)
      else Inl (TypeError ''The stream controller cannot close or enqueue.''))"

definition controller_close :: "state \<Rightarrow> error + state" where
  "controller_close s =
     (if stream_open s then Inr (log_event ControllerClose (s\<lparr>stream_open := False\<rparr>))
      else Inl (TypeError ''The stream controller cannot close or enqueue.''))"

text \<open>
  What the socket answers to one \<^verbatim>\<open>conn.read(buffer)\<close>: bytes that are ready, the end of
  the stream (\<^verbatim>\<open>null\<close>), or an error. While a read is pending the other tasks run: the
  consumer may cancel the readable stream, and whoever holds the writable stream may close
  it. A \<open>step list\<close> is one schedule of these.
\<close>

datatype read_result = Data bytes | EOF | ReadError error

datatype step = Resolve read_result | Cancel | CloseSink

text \<open>
  How the task of the loop ends: it returns, it throws (nothing awaits the task, so the
  rejection is unhandled), or it is still waiting for a read when the schedule ends.
\<close>

datatype loop_end = Finished | Rejected error | Pending

text \<open>
  A read copies at most \<open>length buffer\<close> of the ready bytes to the start of the buffer and
  returns their number; \<^verbatim>\<open>subarray(b, e)\<close> is the slice from \<open>b\<close> to \<open>e\<close>. The bytes that did
  not fit stay ready for the next read.
\<close>

definition read_available :: "bytes \<Rightarrow> bytes \<Rightarrow> nat \<times> bytes" where
  "read_available bs buffer =
     (min (length bs) (length buffer),
      take (min (length bs) (length buffer)) bs @ drop (min (length bs) (length buffer)) buffer)"

definition subarray :: "nat \<Rightarrow> nat \<Rightarrow> bytes \<Rightarrow> bytes" where
  "subarray b e buffer = take (e - b) (drop b buffer)"

definition unread :: "nat \<Rightarrow> bytes \<Rightarrow> step list \<Rightarrow> step list" where
  "unread n bs sch = (if n < length bs then Resolve (Data (drop n bs)) # sch else sch)"

fun cost :: "step \<Rightarrow> nat" where
  "cost (Resolve (Data bs)) = Suc (length bs)"
| "cost _ = 1"

text \<open>The \<^verbatim>\<open>finally\<close> block: \<^verbatim>\<open>controller.close(); conn.close();\<close>.\<close>

definition loop_finally :: "runtime \<Rightarrow> state \<Rightarrow> loop_end \<times> state" where
  "loop_finally rt s =
     (case controller_close s of
        Inl e \<Rightarrow> (Rejected e, s)
      | Inr s1 \<Rightarrow>
          (case conn_close rt s1 of
             (Inl e, s2) \<Rightarrow> (Rejected e, s2)
           | (Inr _, s2) \<Rightarrow> (Finished, s2)))"

text \<open>The \<^verbatim>\<open>catch\<close> block, followed by the \<^verbatim>\<open>finally\<close> block.\<close>

definition loop_catch :: "runtime \<Rightarrow> error \<Rightarrow> state \<Rightarrow> loop_end \<times> state" where
  "loop_catch rt err s = loop_finally rt (console_error ''Error reading from connection:'' err s)"

text \<open>
  The task started by \<^verbatim>\<open>start(controller)\<close>. A read on a socket that is closed fails with
  \<^verbatim>\<open>BadResource\<close>.
\<close>

function read_loop :: "runtime \<Rightarrow> step list \<Rightarrow> state \<Rightarrow> loop_end \<times> state" where
  "read_loop rt [] s = (Pending, s)"
| "read_loop rt (Cancel # sch) s = read_loop rt sch (s\<lparr>stream_open := False\<rparr>)"
| "read_loop rt (CloseSink # sch) s = read_loop rt sch (snd (sink_close rt s))"
| "read_loop rt (Resolve r # sch) s =
     (if \<not> conn_open s then loop_catch rt BadResource s
      else
        (case r of
           EOF \<Rightarrow> loop_finally rt s
         | ReadError e \<Rightarrow> loop_catch rt e s
         | Data bs \<Rightarrow>
             (case read_available bs (replicate 1024 0) of
                (bytesRead, buffer) \<Rightarrow>
                  (case controller_enqueue (subarray 0 bytesRead buffer) s of
                     Inl e \<Rightarrow> loop_catch rt e s
                   | Inr s' \<Rightarrow> read_loop rt (unread bytesRead bs sch) s'))))"
  by pat_completeness auto
termination
  by (relation "measure (\<lambda>(rt, sch, s). sum_list (map cost sch))")
     (auto simp: read_available_def unread_def)

declare read_loop.simps [simp del]

section \<open>The masking key (lines 109 to 111)\<close>

text \<open>
  \<^verbatim>\<open>crypto.getRandomValues(array)\<close> fills the array with the next bytes of the random
  source and returns it.
\<close>

definition getRandomValues :: "runtime \<Rightarrow> bytes \<Rightarrow> state \<Rightarrow> bytes \<times> state" where
  "getRandomValues rt array s =
     (map (entropy rt) [rng_pos s ..< rng_pos s + length array],
      log_event (GetRandomValues (length array)) (s\<lparr>rng_pos := rng_pos s + length array\<rparr>))"

definition createMask :: "runtime \<Rightarrow> state \<Rightarrow> bytes \<times> state" where
  "createMask rt s = getRandomValues rt (replicate 4 0) s"

section \<open>createConnection (lines 28 to 94)\<close>

text \<open>Lines 33 to 39: the transport and the port.\<close>

definition dial :: "runtime \<Rightarrow> url \<Rightarrow> state \<Rightarrow> (error + unit) \<times> state" where
  "dial rt parsedURL s =
     (if protocol parsedURL = ''http:'' \<or> protocol parsedURL = ''ws:'' then
        Deno_connect rt Tcp (hostname parsedURL) (parseInt (or_else (port parsedURL) ''80'')) s
      else if protocol parsedURL = ''https:'' \<or> protocol parsedURL = ''wss:'' then
        Deno_connect rt Tls (hostname parsedURL) (parseInt (or_else (port parsedURL) ''443'')) s
      else
        (Inl (Error (''WS: Unknown protocol supplied to connect: '' @ protocol parsedURL)), s))"

text \<open>
  Lines 41 to 44: \<^verbatim>\<open>new Headers()\<close> allocates an object, and the \<^verbatim>\<open>for ... in\<close> loop sets
  every property of the caller's object on it. The loop has no suspension point, so it
  sees the caller's object as it is when the loop starts. With no second argument the
  parameter defaults to an empty object.
\<close>

fun for_in_set :: "runtime \<Rightarrow> object \<Rightarrow> ref \<Rightarrow> state \<Rightarrow> (error + unit) \<times> state" where
  "for_in_set rt [] headersObject s = (Inr (), s)"
| "for_in_set rt ((header, v) # rest) headersObject s =
     (case headers_set rt header v (heap s headersObject) of
        Inl e \<Rightarrow> (Inl e, s)
      | Inr h \<Rightarrow> for_in_set rt rest headersObject (s\<lparr>heap := (heap s)(headersObject := h)\<rparr>))"

definition new_Headers :: "state \<Rightarrow> ref \<times> state" where
  "new_Headers s = (heap_top s, s\<lparr>heap := (heap s)(heap_top s := []), heap_top := Suc (heap_top s)\<rparr>)"

definition copy_headers :: "runtime \<Rightarrow> ref option \<Rightarrow> state \<Rightarrow> (error + ref) \<times> state" where
  "copy_headers rt headers s =
     (case new_Headers s of
        (headersObject, s1) \<Rightarrow>
          (case for_in_set rt (case headers of None \<Rightarrow> [] | Some a \<Rightarrow> heap s1 a) headersObject s1 of
             (Inl e, s2) \<Rightarrow> (Inl e, s2)
           | (Inr _, s2) \<Rightarrow> (Inr headersObject, s2)))"

text \<open>
  Lines 46 to 79: the two streams are constructed; constructing the readable stream calls
  \<^verbatim>\<open>start\<close>, which starts the read loop as a task of its own.
\<close>

definition new_streams :: "state \<Rightarrow> state" where
  "new_streams s = log_event StartReadLoop (s\<lparr>sink := SinkWritable, stream_open := True\<rparr>)"

text \<open>Lines 29 to 79: everything before the handshake.\<close>

definition prepare ::
    "runtime \<Rightarrow> string \<Rightarrow> ref option \<Rightarrow> state \<Rightarrow> (error + url \<times> ref) \<times> state" where
  "prepare rt u headers s =
     (case new_URL rt u of
        Inl e \<Rightarrow> (Inl e, s)
      | Inr parsedURL \<Rightarrow>
          (case dial rt parsedURL s of
             (Inl e, s1) \<Rightarrow> (Inl e, s1)
           | (Inr _, s1) \<Rightarrow>
               (case copy_headers rt headers s1 of
                  (Inl e, s2) \<Rightarrow> (Inl e, s2)
                | (Inr headersObject, s2) \<Rightarrow> (Inr (parsedURL, headersObject), new_streams s2))))"

text \<open>
  Line 82: the handshake is called with the parsed URL, the \<^verbatim>\<open>Headers\<close> object and the two
  streams, and awaited.
\<close>

definition call_handshake :: "runtime \<Rightarrow> url \<Rightarrow> ref \<Rightarrow> state \<Rightarrow> (error + unit) \<times> state" where
  "call_handshake rt parsedURL headersObject s =
     await_others (handshake rt parsedURL headersObject)
       (log_event (Handshake parsedURL (heap s headersObject)) s)"

datatype jsvalue = Conn | ReadableStream | WritableStream | Uint8Array bytes

type_synonym jsobject = "(string \<times> jsvalue) list"

definition createConnection ::
    "runtime \<Rightarrow> string \<Rightarrow> ref option \<Rightarrow> state \<Rightarrow> (error + jsobject) \<times> state" where
  "createConnection rt u headers s =
     (case prepare rt u headers s of
        (Inl e, s3) \<Rightarrow> (Inl e, s3)
      | (Inr (parsedURL, headersObject), s3) \<Rightarrow>
          (case call_handshake rt parsedURL headersObject s3 of
             (Inl e, s4) \<Rightarrow>
               (case conn_close rt s4 of
                  (Inl e', s5) \<Rightarrow> (Inl e', s5)
                | (Inr _, s5) \<Rightarrow> (Inl e, s5))
           | (Inr _, s4) \<Rightarrow>
               (case createMask rt s4 of
                  (mask', s5) \<Rightarrow>
                    (Inr [(''conn'', Conn),
                          (''readableStream'', ReadableStream),
                          (''writableStream'', WritableStream),
                          (''mask'', Uint8Array mask')], s5))))"

text \<open>
  Lines 99 to 104: the interface \<^verbatim>\<open>Connection\<close>, as its fields and their types; an object
  conforms when it has every field of the interface, with a value of the field's type.
\<close>

definition Connection :: "(string \<times> string) list" where
  "Connection =
     [(''conn'', ''Deno.Conn''), (''bufReader'', ''BufReader''),
      (''bufWriter'', ''BufWriter''), (''mask'', ''Uint8Array'')]"

fun type_of :: "jsvalue \<Rightarrow> string" where
  "type_of Conn = ''Deno.Conn''"
| "type_of ReadableStream = ''ReadableStream''"
| "type_of WritableStream = ''WritableStream''"
| "type_of (Uint8Array _) = ''Uint8Array''"

definition conforms :: "jsobject \<Rightarrow> (string \<times> string) list \<Rightarrow> bool" where
  "conforms obj iface =
     list_all (\<lambda>(f, ty). case map_of obj f of None \<Rightarrow> False | Some v \<Rightarrow> type_of v = ty) iface"

section \<open>What the claims speak of\<close>

text \<open>The chunks the inbound source has emitted, in order: the \<^verbatim>\<open>enqueue\<close> calls recorded.\<close>

definition emitted :: "state \<Rightarrow> bytes list" where
  "emitted s = concat (map (\<lambda>e. case e of Enqueue chunk \<Rightarrow> [chunk] | _ \<Rightarrow> []) (events s))"

text \<open>
  What another task can do to an object it holds a reference to: replace its properties.
  (Every assignment and deletion is such a replacement.)
\<close>

definition store :: "ref \<Rightarrow> object \<Rightarrow> state \<Rightarrow> state" where
  "store a obj s = s\<lparr>heap := (heap s)(a := obj)\<rparr>"

text \<open>
  The content of a \<^verbatim>\<open>Headers\<close> object after \<^verbatim>\<open>set\<close> was called for each property of a list,
  in order, starting from the content \<open>h\<close>: the loop of lines 42 to 44 as a function of the
  properties alone.
\<close>

fun set_all :: "runtime \<Rightarrow> object \<Rightarrow> object \<Rightarrow> error + object" where
  "set_all rt [] h = Inr h"
| "set_all rt ((header, v) # rest) h =
     (case headers_set rt header v h of Inl e \<Rightarrow> Inl e | Inr h' \<Rightarrow> set_all rt rest h')"

text \<open>
  A byte sequence cut into pieces of 1024 bytes, the last one shorter (an empty sequence is
  one empty piece): what reads into a buffer of 1024 bytes return when the sequence is
  ready on the socket.
\<close>

function chop :: "bytes \<Rightarrow> bytes list" where
  "chop bs = (if length bs \<le> 1024 then [bs] else take 1024 bs # chop (drop 1024 bs))"
  by pat_completeness auto
termination
  by (relation "measure length") auto

declare chop.simps [simp del]

section \<open>A runtime and a state for the examples\<close>

text \<open>
  A runtime in which everything succeeds, on the URLs of the specification's scenarios:
  the parser knows three URLs, the network accepts every dial, no other task runs while
  the dial is pending, \<^verbatim>\<open>Headers.set\<close> replaces a header of the same name or appends, the
  handshake accepts, the socket takes every byte written, and closing a closed resource
  throws \<^verbatim>\<open>BadResource\<close>.
\<close>

definition example_URL :: "string \<Rightarrow> error + url" where
  "example_URL u =
     (if u = ''ws://example.test:8080'' then
        Inr \<lparr>protocol = ''ws:'', hostname = ''example.test'', port = ''8080''\<rparr>
      else if u = ''wss://example.test'' then
        Inr \<lparr>protocol = ''wss:'', hostname = ''example.test'', port = []\<rparr>
      else if u = ''ftp://host'' then
        Inr \<lparr>protocol = ''ftp:'', hostname = ''host'', port = []\<rparr>
      else Inl (TypeError ''Invalid URL''))"

definition example_set :: "string \<Rightarrow> string \<Rightarrow> object \<Rightarrow> error + object" where
  "example_set name v h =
     (if name \<in> set (map fst h)
      then Inr (map (\<lambda>(k, w). if k = name then (k, v) else (k, w)) h)
      else Inr (h @ [(name, v)]))"

definition deno :: runtime where
  "deno =
     \<lparr>new_URL = example_URL,
      net_connect = (\<lambda>tr h p. None),
      others_while_dialing = (\<lambda>s. s),
      headers_set = example_set,
      handshake = (\<lambda>parsedURL headersObject s. (Inr (), s)),
      close_closed = Some BadResource,
      net_write = (\<lambda>chunk. Inr (length chunk)),
      entropy = (\<lambda>i. of_nat (37 * i + 11))\<rparr>"

text \<open>
  The caller holds one object, \<^verbatim>\<open>{Authorization: "Bearer abc"}\<close>, at reference 0. No socket
  and no stream exist yet.
\<close>

definition start :: state where
  "start =
     \<lparr>conn_open = False, stream_open = False, sink = SinkClosed,
      heap = (\<lambda>a. if a = 0 then [(''Authorization'', ''Bearer abc'')] else []),
      heap_top = 1, rng_pos = 0, events = []\<rparr>"

text \<open>A handshake that the server rejects.\<close>

definition rejecting :: "url \<Rightarrow> ref \<Rightarrow> state \<Rightarrow> (error + unit) \<times> state" where
  "rejecting parsedURL headersObject s = (Inl (Thrown ''ws: unexpected status''), s)"


text \<open>A \<^verbatim>\<open>Headers.set\<close> that rejects a name with a space in it, as the real one does.\<close>

definition strict_set :: "string \<Rightarrow> string \<Rightarrow> object \<Rightarrow> error + object" where
  "strict_set name v h =
     (if CHR '' '' \<in> set name then Inl (TypeError ''Invalid header name'')
      else example_set name v h)"

text \<open>An assignment \<^verbatim>\<open>object[k] = v\<close> by another task, to the object at reference \<open>a\<close>.\<close>

definition assign :: "ref \<Rightarrow> string \<Rightarrow> string \<Rightarrow> state \<Rightarrow> state" where
  "assign a k v s =
     store a (case example_set k v (heap s a) of Inr h \<Rightarrow> h | Inl e \<Rightarrow> heap s a) s"

section \<open>The calls each step records\<close>

lemma events_log_event: "events (log_event e s) = events s @ [e]"
  by (simp add: log_event_def)

lemma events_Deno_connect: "events (snd (Deno_connect rt tr h p s)) = events s @ [Dial tr h p]"
  by (simp add: Deno_connect_def await_others_def log_event_def split: option.split)

lemma events_conn_close:
  "events (snd (conn_close rt s)) = events s @ (if conn_open s then [Close] else [])"
  by (simp add: conn_close_def log_event_def split: option.split)

lemma closed_conn_close: "\<not> conn_open (snd (conn_close rt s))"
  by (simp add: conn_close_def log_event_def split: option.split)

lemma events_for_in_set: "events (snd (for_in_set rt props r s)) = events s"
  by (induction rt props r s rule: for_in_set.induct) (auto split: sum.split)

lemma events_for_in_set_eq: "for_in_set rt props r s = (res, s') \<Longrightarrow> events s' = events s"
  using events_for_in_set [of rt props r s] by simp

lemma events_copy_headers: "events (snd (copy_headers rt headers s)) = events s"
  by (auto simp: copy_headers_def new_Headers_def split: prod.split sum.split
      dest!: events_for_in_set_eq)

lemma events_call_handshake:
  "events (snd (call_handshake rt p r s)) = events s @ [Handshake p (heap s r)]"
  by (simp add: call_handshake_def await_others_def log_event_def split: prod.split)

lemma events_createMask: "events (snd (createMask rt s)) = events s @ [GetRandomValues 4]"
  by (simp add: createMask_def getRandomValues_def log_event_def)

section \<open>The scenario \<^verbatim>\<open>ws://example.test:8080\<close>, evaluated\<close>

lemma parseInt_examples:
  "parseInt (or_else ''8080'' ''80'') = Number 8080"
  "parseInt (or_else [] ''443'') = Number 443"
  "parseInt (or_else [] ''80'') = Number 80"
  by code_simp+


section \<open>Unsupported schemes\<close>

text \<open>
  Claim C3. When the parsed URL's scheme is none of \<^verbatim>\<open>http:\<close>, \<^verbatim>\<open>ws:\<close>, \<^verbatim>\<open>https:\<close>, \<^verbatim>\<open>wss:\<close>,
  \<^verbatim>\<open>createConnection\<close> fails with the error of line 38 (the specification's
  \<^verbatim>\<open>UnsupportedProtocol\<close>), and the state it returns is the state it was called in: nothing
  was dialed, no socket exists, no call was recorded.
\<close>

theorem unknown_protocol_fails_before_io:
  assumes "new_URL rt u = Inr parsedURL"
    and "protocol parsedURL \<noteq> ''http:''" and "protocol parsedURL \<noteq> ''ws:''"
    and "protocol parsedURL \<noteq> ''https:''" and "protocol parsedURL \<noteq> ''wss:''"
  shows "createConnection rt u headers s =
           (Inl (Error (''WS: Unknown protocol supplied to connect: '' @ protocol parsedURL)), s)"
  using assms by (simp add: createConnection_def prepare_def dial_def)

theorem unknown_protocol_witness:
  "createConnection deno ''ftp://host'' (Some 0) start =
     (Inl (Error ''WS: Unknown protocol supplied to connect: ftp:''), start)"
  using unknown_protocol_fails_before_io
    [of deno "''ftp://host''" "\<lparr>protocol = ''ftp:'', hostname = ''host'', port = []\<rparr>" "Some 0" start]
  by (simp add: deno_def example_URL_def)

section \<open>The port: parseInt on what the URL parser returns\<close>

lemma digit_val_char_of: "d < 10 \<Longrightarrow> digit_val (char_of (48 + d)) = Some d"
  by (simp add: digit_val_def Let_def)

lemma is_digit_decimal: "c \<in> set (decimal n) \<Longrightarrow> is_digit 10 c"
proof (induction n arbitrary: c rule: decimal.induct)
  case (1 n)
  show ?case
  proof (cases "n < 10")
    case True
    with "1.prems" show ?thesis
      by (simp add: decimal.simps [of n] is_digit_def digit_val_char_of)
  next
    case False
    have "n mod 10 < 10" by simp
    then have "is_digit 10 (char_of (48 + n mod 10))"
      by (simp only: is_digit_def digit_val_char_of option.case)
    with False "1.prems" "1.IH" show ?thesis
      by (auto simp: decimal.simps [of n])
  qed
qed

lemma decimal_not_Nil: "decimal n \<noteq> []"
  by (subst decimal.simps) simp

lemma takeWhile_decimal: "takeWhile (is_digit 10) (decimal n) = decimal n"
  by (simp add: takeWhile_eq_all_conv is_digit_decimal)

lemma digits_value_snoc:
  "digits_value r (ds @ [c]) = digits_value r ds * r + (case digit_val c of None \<Rightarrow> 0 | Some v \<Rightarrow> v)"
  by (simp add: digits_value_def)

lemma digits_value_decimal: "digits_value 10 (decimal n) = n"
proof (induction n rule: decimal.induct)
  case (1 n)
  show ?case
  proof (cases "n < 10")
    case True
    then show ?thesis
      by (simp add: decimal.simps [of n] digits_value_def digit_val_char_of)
  next
    case False
    have "n mod 10 < 10" by simp
    then have d: "digit_val (char_of (48 + n mod 10)) = Some (n mod 10)"
      by (rule digit_val_char_of)
    from False "1.IH" show ?thesis
      by (simp add: decimal.simps [of n] digits_value_snoc d)
  qed
qed

lemma not_digit_10:
  "\<not> is_digit 10 CHR ''x''" "\<not> is_digit 10 CHR ''X''" "\<not> is_digit 10 CHR ''-''"
  "\<not> is_digit 10 CHR ''+''"
  by (simp_all add: is_digit_def digit_val_def)

lemma is_digit_not_space: "is_digit 10 c \<Longrightarrow> \<not> is_space c"
  by (auto simp: is_digit_def digit_val_def is_space_def Let_def split: if_splits)

lemma hd_decimal: "\<exists>c cs. decimal n = c # cs \<and> is_digit 10 c \<and> (\<forall>d\<in>set cs. is_digit 10 d)"
  using decimal_not_Nil [of n] is_digit_decimal [of _ n]
  by (cases "decimal n") auto

lemma parseInt_decimal: "parseInt (decimal n) = Number (int n)"
proof -
  from hd_decimal obtain c cs where
    d: "decimal n = c # cs" and c: "is_digit 10 c" and cs: "\<forall>d\<in>set cs. is_digit 10 d"
    by blast
  have sp: "dropWhile is_space (decimal n) = decimal n"
    using c by (simp add: d is_digit_not_space)
  have sign: "take (Suc 0) (decimal n) \<noteq> ''-''" "take (Suc 0) (decimal n) \<noteq> ''+''"
    using c not_digit_10 by (auto simp: d)
  have hex: "take 2 (decimal n) \<noteq> ''0x''" "take 2 (decimal n) \<noteq> ''0X''"
    using cs not_digit_10 by (cases cs; auto simp: d)+
  show ?thesis
    by (simp add: parseInt_def Let_def sp sign hex takeWhile_decimal decimal_not_Nil
        digits_value_decimal)
qed


section \<open>The calls of a whole createConnection\<close>

lemma events_copy_headers_eq: "copy_headers rt headers s = (r, s') \<Longrightarrow> events s' = events s"
  using events_copy_headers [of rt headers s] by simp

lemma events_prepare:
  assumes "new_URL rt u = Inr p"
  shows "prefix (events (snd (dial rt p s))) (events (snd (prepare rt u headers s)))"
proof (cases "dial rt p s")
  case (Pair r s1)
  show ?thesis
  proof (cases r)
    case (Inl e)
    with Pair assms show ?thesis by (simp add: prepare_def)
  next
    case (Inr x)
    obtain r2 s2 where c: "copy_headers rt headers s1 = (r2, s2)" by (cases "copy_headers rt headers s1")
    from events_copy_headers_eq [OF c] Pair Inr assms c show ?thesis
      by (cases r2) (simp_all add: prepare_def new_streams_def log_event_def)
  qed
qed

lemma events_after_prepare:
  assumes "prepare rt u headers s = (Inr (p, h), s3)"
    and "call_handshake rt p h s3 = (r, s4)"
  shows "events (snd (createConnection rt u headers s)) =
           events s3 @ [Handshake p (heap s3 h)] @
             (case r of Inl e \<Rightarrow> if conn_open s4 then [Close] else []
                      | Inr x \<Rightarrow> [GetRandomValues 4])"
proof -
  have e4: "events s4 = events s3 @ [Handshake p (heap s3 h)]"
    using events_call_handshake [of rt p h s3] assms(2) by simp
  show ?thesis
  proof (cases r)
    case (Inl e)
    obtain rc s5 where c: "conn_close rt s4 = (rc, s5)" by (cases "conn_close rt s4")
    with assms e4 events_conn_close [of rt s4] Inl show ?thesis
      by (cases rc) (simp_all add: createConnection_def)
  next
    case (Inr x)
    with assms e4 events_createMask [of rt s4] show ?thesis
      by (cases "createMask rt s4") (simp add: createConnection_def)
  qed
qed

lemma createConnection_prepare_fails:
  "prepare rt u headers s = (Inl e, s') \<Longrightarrow> createConnection rt u headers s = (Inl e, s')"
  by (simp add: createConnection_def)

lemma events_createConnection_prefix:
  "prefix (events (snd (prepare rt u headers s))) (events (snd (createConnection rt u headers s)))"
proof (cases "prepare rt u headers s")
  case (Pair r s3)
  show ?thesis
  proof (cases r)
    case (Inl e)
    with Pair show ?thesis by (simp add: createConnection_prepare_fails)
  next
    case (Inr ph)
    obtain p h where ph: "ph = (p, h)" by (cases ph)
    obtain r4 s4 where c: "call_handshake rt p h s3 = (r4, s4)" by (cases "call_handshake rt p h s3")
    from events_after_prepare [OF _ c, of u headers s] Pair Inr ph show ?thesis by simp
  qed
qed

section \<open>Transport and port\<close>

lemma or_else_decimal: "or_else (decimal n) d = decimal n"
  by (simp add: or_else_def decimal_not_Nil)

text \<open>
  Claim C2. For a URL that parses with scheme \<^verbatim>\<open>http:\<close> or \<^verbatim>\<open>ws:\<close>, the first call
  \<^verbatim>\<open>createConnection\<close> makes is \<^verbatim>\<open>Deno.connect\<close> (plain TCP); with \<^verbatim>\<open>https:\<close> or \<^verbatim>\<open>wss:\<close> it
  is \<^verbatim>\<open>Deno.connectTls\<close>. The host is the URL's. The port is 80 (plain) or 443 (TLS) when
  the parsed URL has no port, and the number \<open>n\<close> when its port is the numeral of \<open>n\<close>.
\<close>

theorem dial_transport_and_port:
  assumes "new_URL rt u = Inr parsedURL"
    and "protocol parsedURL \<in> {''http:'', ''ws:'', ''https:'', ''wss:''}"
    and "port parsedURL = (case explicit of None \<Rightarrow> [] | Some n \<Rightarrow> decimal n)"
  shows "prefix
           (events s @
             [Dial (if protocol parsedURL \<in> {''http:'', ''ws:''} then Tcp else Tls)
                (hostname parsedURL)
                (Number (case explicit of
                           Some n \<Rightarrow> int n
                         | None \<Rightarrow> if protocol parsedURL \<in> {''http:'', ''ws:''} then 80 else 443))])
           (events (snd (createConnection rt u headers s)))"
proof -
  have d: "events (snd (dial rt parsedURL s)) =
             events s @
             [Dial (if protocol parsedURL \<in> {''http:'', ''ws:''} then Tcp else Tls)
                (hostname parsedURL)
                (Number (case explicit of
                           Some n \<Rightarrow> int n
                         | None \<Rightarrow> if protocol parsedURL \<in> {''http:'', ''ws:''} then 80 else 443))]"
    using assms(2,3)
    by (cases explicit)
       (auto simp: dial_def events_Deno_connect parseInt_examples or_else_decimal parseInt_decimal)
  from events_prepare [OF assms(1), of s headers] events_createConnection_prefix [of rt u headers s]
  have "prefix (events (snd (dial rt parsedURL s))) (events (snd (createConnection rt u headers s)))"
    by (rule prefix_order.order_trans)
  with d show ?thesis by simp
qed


lemma decimal_8080: "decimal 8080 = ''8080''"
  by (simp add: decimal.simps char_of_def bit_Suc_0_iff)

theorem dial_transport_and_port_witness:
  "prefix [Dial Tls ''example.test'' (Number 443)]
     (events (snd (createConnection deno ''wss://example.test'' None start)))
   \<and> prefix [Dial Tcp ''example.test'' (Number 8080)]
     (events (snd (createConnection deno ''ws://example.test:8080'' (Some 0) start)))"
  using
    dial_transport_and_port [where rt = deno and u = "''wss://example.test''"
      and parsedURL = "\<lparr>protocol = ''wss:'', hostname = ''example.test'', port = []\<rparr>"
      and explicit = None and s = start and headers = None]
    dial_transport_and_port [where rt = deno and u = "''ws://example.test:8080''"
      and parsedURL = "\<lparr>protocol = ''ws:'', hostname = ''example.test'', port = ''8080''\<rparr>"
      and explicit = "Some 8080" and s = start and headers = "Some 0"]
  by (simp add: deno_def example_URL_def start_def decimal_8080)

section \<open>When the masking key is generated\<close>


section \<open>Evaluating the scenarios\<close>

lemmas run_defs =
  createConnection_def prepare_def example_URL_def dial_def Deno_connect_def await_others_def
  parseInt_examples copy_headers_def new_Headers_def start_def log_event_def example_set_def
  new_streams_def call_handshake_def conn_close_def createMask_def getRandomValues_def
  deno_def rejecting_def



lemma deno_entropy_0_4: "map (entropy deno) [0 ..< 0 + 4] = [11, 48, 85, 122]"
  by (simp add: deno_def upt_rec)



section \<open>The returned object and the declared interface\<close>

text \<open>
  Claim C10. An object returned by \<^verbatim>\<open>createConnection\<close> has exactly the fields \<^verbatim>\<open>conn\<close>,
  \<^verbatim>\<open>readableStream\<close>, \<^verbatim>\<open>writableStream\<close> and \<^verbatim>\<open>mask\<close>, in this order. The interface
  \<^verbatim>\<open>Connection\<close> declares \<^verbatim>\<open>conn\<close>, \<^verbatim>\<open>bufReader\<close>, \<^verbatim>\<open>bufWriter\<close> and \<^verbatim>\<open>mask\<close>, so neither
  stream field; the object has no \<^verbatim>\<open>bufReader\<close> and no \<^verbatim>\<open>bufWriter\<close>, and does not conform
  to the interface.
\<close>

theorem returned_object_does_not_conform:
  assumes "createConnection rt u headers s = (Inr c, s')"
  shows "map fst c = [''conn'', ''readableStream'', ''writableStream'', ''mask'']
         \<and> map fst Connection = [''conn'', ''bufReader'', ''bufWriter'', ''mask'']
         \<and> map_of c ''bufReader'' = None \<and> map_of c ''bufWriter'' = None
         \<and> \<not> conforms c Connection"
  using assms
  by (auto simp: createConnection_def Connection_def conforms_def split: prod.splits sum.splits)

theorem returned_object_witness:
  "fst (createConnection deno ''ws://example.test:8080'' (Some 0) start) =
     Inr [(''conn'', Conn), (''readableStream'', ReadableStream),
          (''writableStream'', WritableStream), (''mask'', Uint8Array [11, 48, 85, 122])]
   \<and> \<not> conforms [(''conn'', Conn), (''readableStream'', ReadableStream),
          (''writableStream'', WritableStream), (''mask'', Uint8Array [11, 48, 85, 122])] Connection"
proof -
  have f: "fst (createConnection deno ''ws://example.test:8080'' (Some 0) start) =
     Inr [(''conn'', Conn), (''readableStream'', ReadableStream),
          (''writableStream'', WritableStream), (''mask'', Uint8Array [11, 48, 85, 122])]"
    using deno_entropy_0_4 by (simp add: run_defs)
  then have e: "createConnection deno ''ws://example.test:8080'' (Some 0) start =
     (Inr [(''conn'', Conn), (''readableStream'', ReadableStream),
          (''writableStream'', WritableStream), (''mask'', Uint8Array [11, 48, 85, 122])],
      snd (createConnection deno ''ws://example.test:8080'' (Some 0) start))"
    by (simp add: prod_eq_iff)
  from returned_object_does_not_conform [OF e] f show ?thesis by simp
qed

section \<open>The read loop on successful reads\<close>

lemma read_fits:
  assumes "length bs \<le> 1024"
  shows "read_available bs (replicate 1024 0) = (length bs, bs @ replicate (1024 - length bs) 0)"
  using assms by (simp add: read_available_def min_def)

lemma subarray_read: "subarray 0 (length bs) (bs @ rest) = bs"
  by (simp add: subarray_def)

lemma unread_all: "unread (length bs) bs sch = sch"
  by (simp add: unread_def)

lemma read_loop_Data:
  assumes "conn_open s" "stream_open s" "length bs \<le> 1024"
  shows "read_loop rt (Resolve (Data bs) # sch) s = read_loop rt sch (log_event (Enqueue bs) s)"
  using assms
  by (simp add: read_loop.simps read_fits subarray_read unread_all controller_enqueue_def)

lemma read_loop_reads:
  assumes "conn_open s" "stream_open s" "\<forall>bs\<in>set reads. length bs \<le> 1024"
  shows "read_loop rt (map (\<lambda>bs. Resolve (Data bs)) reads @ rest) s =
           read_loop rt rest (s\<lparr>events := events s @ map Enqueue reads\<rparr>)"
  using assms
proof (induction reads arbitrary: s)
  case Nil
  then show ?case by simp
next
  case (Cons bs reads)
  have "read_loop rt (map (\<lambda>bs. Resolve (Data bs)) (bs # reads) @ rest) s =
          read_loop rt (map (\<lambda>bs. Resolve (Data bs)) reads @ rest) (log_event (Enqueue bs) s)"
    using Cons.prems by (simp add: read_loop_Data)
  also have "\<dots> = read_loop rt rest
       ((log_event (Enqueue bs) s)\<lparr>events := events (log_event (Enqueue bs) s) @ map Enqueue reads\<rparr>)"
    using Cons.prems by (intro Cons.IH) (simp_all add: log_event_def)
  finally show ?case by (simp add: log_event_def)
qed

lemma emitted_append: "emitted (s\<lparr>events := events s @ es\<rparr>) = emitted s @ emitted (s\<lparr>events := es\<rparr>)"
  by (simp add: emitted_def)

lemma emitted_Enqueues: "emitted (s\<lparr>events := map Enqueue reads\<rparr>) = reads"
  by (induction reads) (simp_all add: emitted_def)

lemma emitted_loop_finally: "emitted (snd (loop_finally rt s)) = emitted s"
  by (simp add: loop_finally_def controller_close_def conn_close_def log_event_def emitted_def
      split: sum.split prod.split option.split)

lemma read_loop_EOF: "conn_open s \<Longrightarrow> read_loop rt (Resolve EOF # sch) s = loop_finally rt s"
  by (simp add: read_loop.simps)

text \<open>
  Claim C5, as amended. While the socket is open and the inbound source accepts chunks (it
  does from its construction until the loop closes it or its consumer cancels it), a
  sequence of
  successful reads, each of at most the 1024 bytes of the buffer, makes the loop emit
  exactly these byte sequences, one chunk per read and in the order of the reads, and then
  go on with what follows. The chunks emitted are the earlier ones followed by the reads,
  the bytes emitted are as many as the bytes read, and this is what the source has emitted
  when the stream then ends or the loop waits for the next read.
\<close>

theorem reads_emitted_in_order:
  assumes "conn_open s" "stream_open s" "\<forall>bs\<in>set reads. length bs \<le> 1024"
  shows "read_loop rt (map (\<lambda>bs. Resolve (Data bs)) reads @ rest) s =
           read_loop rt rest (s\<lparr>events := events s @ map Enqueue reads\<rparr>)
         \<and> emitted (s\<lparr>events := events s @ map Enqueue reads\<rparr>) = emitted s @ reads
         \<and> length (concat (emitted (s\<lparr>events := events s @ map Enqueue reads\<rparr>))) =
             length (concat (emitted s)) + length (concat reads)
         \<and> emitted (snd (read_loop rt (map (\<lambda>bs. Resolve (Data bs)) reads @ [Resolve EOF]) s)) =
             emitted s @ reads
         \<and> emitted (snd (read_loop rt (map (\<lambda>bs. Resolve (Data bs)) reads) s)) = emitted s @ reads"
proof -
  let ?s' = "s\<lparr>events := events s @ map Enqueue reads\<rparr>"
  have e: "emitted ?s' = emitted s @ reads"
    by (simp add: emitted_append emitted_Enqueues)
  have 1: "read_loop rt (map (\<lambda>bs. Resolve (Data bs)) reads @ rest) s = read_loop rt rest ?s'" for rest
    using assms by (rule read_loop_reads)
  have 2: "read_loop rt (map (\<lambda>bs. Resolve (Data bs)) reads @ [Resolve EOF]) s = loop_finally rt ?s'"
    using assms(1) by (simp add: 1 read_loop_EOF)
  have 3: "read_loop rt (map (\<lambda>bs. Resolve (Data bs)) reads) s = (Pending, ?s')"
    using 1 [of "[]"] by (simp add: read_loop.simps)
  show ?thesis
    using 1 [of rest] e by (simp add: 2 3 emitted_loop_finally)
qed


lemma established_example:
  "conn_open (snd (createConnection deno ''ws://example.test:8080'' (Some 0) start))"
  "stream_open (snd (createConnection deno ''ws://example.test:8080'' (Some 0) start))"
  "events (snd (createConnection deno ''ws://example.test:8080'' (Some 0) start)) =
     [Dial Tcp ''example.test'' (Number 8080), StartReadLoop,
      Handshake \<lparr>protocol = ''ws:'', hostname = ''example.test'', port = ''8080''\<rparr>
        [(''Authorization'', ''Bearer abc'')],
      GetRandomValues 4]"
  by (simp_all add: run_defs)

lemma emitted_established_example:
  "emitted (snd (createConnection deno ''ws://example.test:8080'' (Some 0) start)) = []"
  by (simp add: emitted_def established_example)

theorem reads_emitted_in_order_witness:
  "emitted (snd (read_loop deno
       [Resolve (Data [1, 2]), Resolve (Data [3]), Resolve (Data [4, 5, 6]), Resolve EOF]
       (snd (createConnection deno ''ws://example.test:8080'' (Some 0) start)))) =
     [[1, 2], [3], [4, 5, 6]]"
  using reads_emitted_in_order
    [where s = "snd (createConnection deno ''ws://example.test:8080'' (Some 0) start)"
       and reads = "[[1, 2], [3], [4, 5, 6]]" and rt = deno and rest = "[]"]
    emitted_established_example
  by (simp add: established_example)

section \<open>How the read loop ends\<close>

lemma read_loop_ends_open_stream:
  assumes "conn_open s" "stream_open s"
  shows "read_loop rt (Resolve EOF # sch) s =
           (Finished, s\<lparr>conn_open := False, stream_open := False,
                         events := events s @ [ControllerClose, Close]\<rparr>)"
    and "read_loop rt (Resolve (ReadError e) # sch) s =
           (Finished, s\<lparr>conn_open := False, stream_open := False,
                         events := events s @
                           [ConsoleError ''Error reading from connection:'' e, ControllerClose, Close]\<rparr>)"
  using assms
  by (simp_all add: read_loop.simps loop_catch_def loop_finally_def controller_close_def
      conn_close_def console_error_def log_event_def)

lemma read_loop_ends_cancelled_stream:
  assumes "conn_open s" "\<not> stream_open s"
  shows "read_loop rt (Resolve EOF # sch) s =
           (Rejected (TypeError ''The stream controller cannot close or enqueue.''), s)"
    and "read_loop rt (Resolve (ReadError e) # sch) s =
           (Rejected (TypeError ''The stream controller cannot close or enqueue.''),
            s\<lparr>events := events s @ [ConsoleError ''Error reading from connection:'' e]\<rparr>)"
  using assms
  by (simp_all add: read_loop.simps loop_catch_def loop_finally_def controller_close_def
      console_error_def log_event_def)

text \<open>
  Claim C6, at an input where the module does not do what the claim says. A connection is
  established; the consumer cancels the readable stream; the next read reports the end of
  the stream. In the \<^verbatim>\<open>finally\<close> block \<^verbatim>\<open>controller.close()\<close> throws, because the stream is
  closed already, and \<^verbatim>\<open>conn.close()\<close> on the next line is not reached: the task of the loop
  rejects with a \<^verbatim>\<open>TypeError\<close>, no call was made, and the socket is still open.
\<close>

theorem cancelled_source_leaves_socket_open:
  "read_loop deno [Cancel, Resolve EOF]
       (snd (createConnection deno ''ws://example.test:8080'' (Some 0) start)) =
     (Rejected (TypeError ''The stream controller cannot close or enqueue.''),
      (snd (createConnection deno ''ws://example.test:8080'' (Some 0) start))\<lparr>stream_open := False\<rparr>)
   \<and> conn_open (snd (read_loop deno [Cancel, Resolve EOF]
       (snd (createConnection deno ''ws://example.test:8080'' (Some 0) start))))"
  using read_loop_ends_cancelled_stream(1)
    [of "(snd (createConnection deno ''ws://example.test:8080'' (Some 0) start))\<lparr>stream_open := False\<rparr>"
        deno "[]"]
  by (simp add: read_loop.simps established_example)


section \<open>The copy of the headers\<close>

lemma for_in_set_heap:
  "for_in_set rt props r s = (Inr x, s') \<Longrightarrow>
     set_all rt props (heap s r) = Inr (heap s' r) \<and> (\<forall>b. b \<noteq> r \<longrightarrow> heap s' b = heap s b)"
proof (induction rt props r s rule: for_in_set.induct)
  case (1 rt headersObject s)
  then show ?case by simp
next
  case (2 rt header v rest headersObject s)
  show ?case
  proof (cases "headers_set rt header v (heap s headersObject)")
    case (Inl e)
    with "2.prems" show ?thesis by simp
  next
    case (Inr h)
    with "2.prems" "2.IH" [OF Inr] show ?thesis by simp
  qed
qed

lemma copy_headers_heap:
  assumes "copy_headers rt (Some a) s1 = (Inr headersObject, s2)" and "a < heap_top s1"
  shows "headersObject = heap_top s1"
    and "set_all rt (heap s1 a) [] = Inr (heap s2 headersObject)"
    and "\<forall>b. b \<noteq> headersObject \<longrightarrow> heap s2 b = heap s1 b"
proof -
  let ?s = "s1\<lparr>heap := (heap s1)(heap_top s1 := []), heap_top := Suc (heap_top s1)\<rparr>"
  obtain r s' where f: "for_in_set rt (heap s1 a) (heap_top s1) ?s = (r, s')"
    by (cases "for_in_set rt (heap s1 a) (heap_top s1) ?s")
  from assms f have r: "r = Inr ()" and h: "headersObject = heap_top s1" and s: "s2 = s'"
    by (auto simp: copy_headers_def new_Headers_def split: sum.splits)
  from for_in_set_heap [OF f [unfolded r]]
  have "set_all rt (heap s1 a) [] = Inr (heap s' (heap_top s1))"
    and "\<forall>b. b \<noteq> heap_top s1 \<longrightarrow> heap s' b = heap ?s b"
    by simp_all
  with h s show "headersObject = heap_top s1"
    and "set_all rt (heap s1 a) [] = Inr (heap s2 headersObject)"
    and "\<forall>b. b \<noteq> headersObject \<longrightarrow> heap s2 b = heap s1 b"
    by simp_all
qed

text \<open>
  Claim C8, as amended. The caller's header mapping is copied into a new \<^verbatim>\<open>Headers\<close> object
  after the dial has completed, not when \<^verbatim>\<open>createConnection\<close> is called: the copy holds the
  properties the mapping has at that moment. The object is new (no reference the caller
  holds reaches it), it is the one passed to the handshake, and from then on replacing
  the properties of the caller's mapping changes nothing in it.
\<close>

theorem headers_copied_after_dial:
  assumes "new_URL rt u = Inr parsedURL"
    and "dial rt parsedURL s = (Inr (), s1)"
    and "a < heap_top s1"
    and "copy_headers rt (Some a) s1 = (Inr headersObject, s2)"
  shows "set_all rt (heap s1 a) [] = Inr (heap s2 headersObject)
         \<and> headersObject \<noteq> a
         \<and> Handshake parsedURL (heap s2 headersObject)
               \<in> set (events (snd (createConnection rt u (Some a) s)))
         \<and> heap (store a obj s') headersObject = heap s' headersObject"
proof -
  note c = copy_headers_heap [OF assms(4,3)]
  from c(1) assms(3) have ne: "headersObject \<noteq> a" by simp
  have p: "prepare rt u (Some a) s = (Inr (parsedURL, headersObject), new_streams s2)"
    using assms by (simp add: prepare_def)
  obtain r s4 where h: "call_handshake rt parsedURL headersObject (new_streams s2) = (r, s4)"
    by (cases "call_handshake rt parsedURL headersObject (new_streams s2)")
  have "Handshake parsedURL (heap s2 headersObject)
          \<in> set (events (snd (createConnection rt u (Some a) s)))"
    using events_after_prepare [OF p h] by (simp add: new_streams_def log_event_def)
  with c(2) ne show ?thesis by (simp add: store_def)
qed

theorem headers_copied_after_dial_witness:
  "Handshake \<lparr>protocol = ''ws:'', hostname = ''example.test'', port = ''8080''\<rparr>
       [(''Authorization'', ''Bearer abc'')]
     \<in> set (events (snd (createConnection deno ''ws://example.test:8080'' (Some 0) start)))
   \<and> heap (store 0 [(''Authorization'', ''Bearer xyz'')]
        (snd (copy_headers deno (Some 0)
           (snd (dial deno \<lparr>protocol = ''ws:'', hostname = ''example.test'', port = ''8080''\<rparr>
              start))))) 1 =
       [(''Authorization'', ''Bearer abc'')]"
proof -
  let ?p = "\<lparr>protocol = ''ws:'', hostname = ''example.test'', port = ''8080''\<rparr>"
  define s1 where "s1 = snd (dial deno ?p start)"
  define s2 where "s2 = snd (copy_headers deno (Some 0) s1)"
  have u: "new_URL deno ''ws://example.test:8080'' = Inr ?p"
    by (simp add: deno_def example_URL_def)
  have d: "dial deno ?p start = (Inr (), s1)"
    by (simp add: s1_def prod_eq_iff run_defs)
  have t: "0 < heap_top s1"
    by (simp add: s1_def run_defs)
  have c: "copy_headers deno (Some 0) s1 = (Inr 1, s2)"
    by (simp add: s2_def s1_def prod_eq_iff run_defs)
  have v: "heap s2 1 = [(''Authorization'', ''Bearer abc'')]"
    by (simp add: s2_def s1_def run_defs)
  from headers_copied_after_dial [OF u d t c, of "[(''Authorization'', ''Bearer xyz'')]" s2] v
  show ?thesis by (simp add: s2_def s1_def)
qed

text \<open>
  The claim as stated (no assignment the caller makes after the call has an effect) fails
  when the caller assigns while the dial is pending: \<^verbatim>\<open>createConnection\<close> was called with
  \<^verbatim>\<open>{Authorization: "Bearer abc"}\<close>, and the handshake is given \<^verbatim>\<open>Bearer xyz\<close>.
\<close>

theorem assignment_while_dialing_counterexample:
  "heap start 0 = [(''Authorization'', ''Bearer abc'')]
   \<and> events (snd (createConnection
         (deno\<lparr>others_while_dialing := assign 0 ''Authorization'' ''Bearer xyz''\<rparr>)
         ''ws://example.test:8080'' (Some 0) start)) =
       [Dial Tcp ''example.test'' (Number 8080), StartReadLoop,
        Handshake \<lparr>protocol = ''ws:'', hostname = ''example.test'', port = ''8080''\<rparr>
          [(''Authorization'', ''Bearer xyz'')],
        GetRandomValues 4]"
  by (simp add: run_defs assign_def store_def)

section \<open>Further properties\<close>

text \<open>
  On a source that is still open, the end of the loop is as the specification describes
  it: after the end of the stream the source is closed and then the socket; after a read
  error the error is logged first; the task of the loop returns normally, and the rest of
  the schedule is not looked at.
\<close>

theorem open_source_loop_end_closes_both:
  assumes "conn_open s" "stream_open s"
  shows "read_loop rt (Resolve EOF # sch) s =
           (Finished, s\<lparr>conn_open := False, stream_open := False,
                         events := events s @ [ControllerClose, Close]\<rparr>)
         \<and> read_loop rt (Resolve (ReadError e) # sch) s =
           (Finished, s\<lparr>conn_open := False, stream_open := False,
                         events := events s @
                           [ConsoleError ''Error reading from connection:'' e, ControllerClose, Close]\<rparr>)"
  using read_loop_ends_open_stream [OF assms] by simp

theorem open_source_loop_end_witness:
  "fst (read_loop deno [Resolve (ReadError (Thrown ''reset''))]
       (snd (createConnection deno ''ws://example.test:8080'' (Some 0) start))) = Finished
   \<and> \<not> conn_open (snd (read_loop deno [Resolve (ReadError (Thrown ''reset''))]
       (snd (createConnection deno ''ws://example.test:8080'' (Some 0) start))))
   \<and> events (snd (read_loop deno [Resolve (ReadError (Thrown ''reset''))]
       (snd (createConnection deno ''ws://example.test:8080'' (Some 0) start)))) =
     [Dial Tcp ''example.test'' (Number 8080), StartReadLoop,
      Handshake \<lparr>protocol = ''ws:'', hostname = ''example.test'', port = ''8080''\<rparr>
        [(''Authorization'', ''Bearer abc'')],
      GetRandomValues 4,
      ConsoleError ''Error reading from connection:'' (Thrown ''reset''), ControllerClose, Close]"
  using open_source_loop_end_closes_both
    [of "snd (createConnection deno ''ws://example.test:8080'' (Some 0) start)" deno "[]"
        "Thrown ''reset''"]
  by (simp add: established_example)

text \<open>
  When \<^verbatim>\<open>Headers.set\<close> throws in the copy loop (an invalid header name, say), the error
  leaves \<^verbatim>\<open>createConnection\<close> from lines 41 to 44, outside the \<^verbatim>\<open>try\<close> block: the socket that
  the dial opened is still open, and nothing holds it any more.
\<close>

lemma for_in_set_conn_open: "conn_open (snd (for_in_set rt props r s)) = conn_open s"
  by (induction rt props r s rule: for_in_set.induct) (auto split: sum.split)

lemma for_in_set_conn_open_eq:
  "for_in_set rt props r s = (res, s') \<Longrightarrow> conn_open s' = conn_open s"
  using for_in_set_conn_open [of rt props r s] by simp

lemma copy_headers_conn_open: "conn_open (snd (copy_headers rt headers s)) = conn_open s"
  by (auto simp: copy_headers_def new_Headers_def split: prod.split sum.split
      dest!: for_in_set_conn_open_eq)

theorem header_error_leaves_socket_open:
  assumes "new_URL rt u = Inr parsedURL"
    and "dial rt parsedURL s = (Inr (), s1)"
    and "copy_headers rt headers s1 = (Inl e, s2)"
  shows "createConnection rt u headers s = (Inl e, s2) \<and> conn_open s2"
proof -
  have "conn_open s1"
    using assms(2)
    by (auto simp: dial_def Deno_connect_def await_others_def split: if_splits option.splits)
  with copy_headers_conn_open [of rt headers s1] assms(3) have "conn_open s2" by simp
  with assms show ?thesis by (simp add: createConnection_def prepare_def)
qed


theorem header_error_witness:
  "fst (createConnection (deno\<lparr>headers_set := strict_set\<rparr>) ''ws://example.test:8080'' (Some 0)
       (store 0 [(''bad name'', ''x'')] start)) = Inl (TypeError ''Invalid header name'')
   \<and> conn_open (snd (createConnection (deno\<lparr>headers_set := strict_set\<rparr>)
       ''ws://example.test:8080'' (Some 0) (store 0 [(''bad name'', ''x'')] start)))"
proof -
  let ?rt = "deno\<lparr>headers_set := strict_set\<rparr>"
  let ?p = "\<lparr>protocol = ''ws:'', hostname = ''example.test'', port = ''8080''\<rparr>"
  let ?s = "store 0 [(''bad name'', ''x'')] start"
  define s1 where "s1 = snd (dial ?rt ?p ?s)"
  define s2 where "s2 = snd (copy_headers ?rt (Some 0) s1)"
  have u: "new_URL ?rt ''ws://example.test:8080'' = Inr ?p"
    by (simp add: deno_def example_URL_def)
  have d: "dial ?rt ?p ?s = (Inr (), s1)"
    by (simp add: s1_def prod_eq_iff run_defs store_def)
  have c: "copy_headers ?rt (Some 0) s1 = (Inl (TypeError ''Invalid header name''), s2)"
    by (simp add: s2_def s1_def prod_eq_iff run_defs store_def strict_set_def)
  from header_error_leaves_socket_open [OF u d c] show ?thesis by simp
qed

text \<open>
  Bytes that are ready on the socket are emitted in pieces of at most 1024 bytes, one per
  read, in order and with no byte lost or added: the granularity of the reads is the only
  splitting, and nothing is merged.
\<close>

lemma read_loop_Data_long:
  assumes "conn_open s" "stream_open s" "\<not> length bs \<le> 1024"
  shows "read_loop rt (Resolve (Data bs) # sch) s =
           read_loop rt (Resolve (Data (drop 1024 bs)) # sch) (log_event (Enqueue (take 1024 bs)) s)"
  using assms
  by (simp add: read_loop.simps read_available_def subarray_def unread_def controller_enqueue_def
      min_def)

lemma read_loop_chop:
  assumes "conn_open s" "stream_open s"
  shows "read_loop rt (Resolve (Data bs) # sch) s =
           read_loop rt sch (s\<lparr>events := events s @ map Enqueue (chop bs)\<rparr>)"
  using assms
proof (induction bs arbitrary: s rule: chop.induct)
  case (1 bs)
  show ?case
  proof (cases "length bs \<le> 1024")
    case True
    with "1.prems" show ?thesis
      by (simp add: read_loop_Data chop.simps [of bs] log_event_def)
  next
    case False
    have "read_loop rt (Resolve (Data bs) # sch) s =
            read_loop rt (Resolve (Data (drop 1024 bs)) # sch) (log_event (Enqueue (take 1024 bs)) s)"
      using "1.prems" False by (rule read_loop_Data_long)
    also have "\<dots> = read_loop rt sch
        ((log_event (Enqueue (take 1024 bs)) s)
           \<lparr>events := events (log_event (Enqueue (take 1024 bs)) s) @ map Enqueue (chop (drop 1024 bs))\<rparr>)"
      using "1.prems" False by (intro "1.IH") (simp_all add: log_event_def)
    finally show ?thesis
      using False by (simp add: chop.simps [of bs] log_event_def)
  qed
qed

lemma concat_chop: "concat (chop bs) = bs"
  by (induction bs rule: chop.induct) (subst chop.simps, simp)

lemma length_chop: "c \<in> set (chop bs) \<Longrightarrow> length c \<le> 1024"
  by (induction bs rule: chop.induct) (subst (asm) chop.simps, auto split: if_splits)

theorem ready_bytes_emitted_in_pieces:
  assumes "conn_open s" "stream_open s"
  shows "read_loop rt (Resolve (Data bs) # sch) s =
           read_loop rt sch (s\<lparr>events := events s @ map Enqueue (chop bs)\<rparr>)
         \<and> concat (chop bs) = bs \<and> (\<forall>c\<in>set (chop bs). length c \<le> 1024)"
  using read_loop_chop [OF assms] concat_chop length_chop by blast

lemma chop_1030: "chop (replicate 1030 (7 :: byte)) = [replicate 1024 7, replicate 6 7]"
  by (simp add: chop.simps)

theorem ready_bytes_emitted_in_pieces_witness:
  "emitted (snd (read_loop deno [Resolve (Data (replicate 1030 7)), Resolve EOF]
       (snd (createConnection deno ''ws://example.test:8080'' (Some 0) start)))) =
     [replicate 1024 7, replicate 6 7]"
proof -
  let ?s = "snd (createConnection deno ''ws://example.test:8080'' (Some 0) start)"
  let ?s' = "?s\<lparr>events := events ?s @ map Enqueue (chop (replicate 1030 7))\<rparr>"
  from ready_bytes_emitted_in_pieces [OF established_example(1,2), of deno "replicate 1030 7" "[Resolve EOF]"]
  have "read_loop deno [Resolve (Data (replicate 1030 7)), Resolve EOF] ?s =
          read_loop deno [Resolve EOF] ?s'"
    by simp
  also have "\<dots> = loop_finally deno ?s'"
    by (rule read_loop_EOF) (simp add: established_example)
  finally have "emitted (snd (read_loop deno [Resolve (Data (replicate 1030 7)), Resolve EOF] ?s)) =
      emitted ?s'"
    by (simp add: emitted_loop_finally)
  also have "\<dots> = chop (replicate 1030 7)"
    by (simp add: emitted_append emitted_Enqueues emitted_established_example)
  finally show ?thesis by (simp add: chop_1030)
qed

section \<open>How a call that reaches the handshake ends\<close>






section \<open>Closing and aborting the sink\<close>






section \<open>Reads after the consumer has cancelled\<close>

text \<open>
  Claim C5 as stated (every successful read is emitted) fails once the consumer has
  cancelled the readable stream: the loop goes on reading, the read returns two bytes,
  \<^verbatim>\<open>enqueue\<close> throws on the cancelled stream, and the loop ends; nothing was emitted.
\<close>

theorem read_after_cancel_counterexample:
  "emitted (snd (read_loop deno [Cancel, Resolve (Data [1, 2]), Resolve (Data [3])]
       (snd (createConnection deno ''ws://example.test:8080'' (Some 0) start)))) = []
   \<and> fst (read_loop deno [Cancel, Resolve (Data [1, 2]), Resolve (Data [3])]
       (snd (createConnection deno ''ws://example.test:8080'' (Some 0) start))) =
     Rejected (TypeError ''The stream controller cannot close or enqueue.'')"
  by (simp add: run_defs read_loop.simps emitted_def read_available_def subarray_def
      controller_enqueue_def loop_catch_def loop_finally_def controller_close_def console_error_def)

section \<open>Writing to the sink\<close>

text \<open>
  \<^verbatim>\<open>write(chunk)\<close> of the sink is one \<^verbatim>\<open>conn.write(chunk)\<close>: on a writable stream and an open
  socket whose transport takes the whole chunk, exactly its bytes reach the socket.
\<close>

theorem sink_write_forwards_chunk:
  assumes "sink s = SinkWritable" "conn_open s" "net_write rt chunk = Inr (length chunk)"
  shows "sink_write rt chunk s = (Inr (), log_event (Write chunk) s)"
  using assms by (simp add: sink_write_def conn_write_def)

theorem sink_write_witness:
  "sink_write deno [1, 2] (snd (createConnection deno ''ws://example.test:8080'' (Some 0) start)) =
     (Inr (), log_event (Write [1, 2])
        (snd (createConnection deno ''ws://example.test:8080'' (Some 0) start)))"
proof -
  have w: "net_write deno [1, 2] = Inr (length [1, 2 :: byte])"
    by (simp add: deno_def)
  have k: "sink (snd (createConnection deno ''ws://example.test:8080'' (Some 0) start)) = SinkWritable"
    by (simp add: run_defs)
  from sink_write_forwards_chunk [OF k established_example(1) w] show ?thesis by simp
qed

end
